theory Spec2Isabelle
  imports Complex_Main "HOL-Library.AList"
begin

section \<open>Exceptions\<close>

text \<open>
  The Python exceptions that the modelled code can raise. A handler returns the
  exception it raised, if any, together with the state it left behind: Tkinter reports an
  exception of a callback and keeps running, so the mutations made before the raise stay.
  Messages are left out. \<open>WarpError\<close> stands for whatever the warp routine raises.
  \<open>NoPriorDimensionsError\<close>, \<open>InvalidDimensionsError\<close> and \<open>DegenerateGeometryError\<close>
  are named by the specification only; nothing translated from the sources produces
  them.
\<close>

datatype error =
    ZeroDivisionError
  | IOError
  | AssertionError
  | TypeError
  | AttributeError
  | IndexError
  | JsonFormatError
  | WarpError
  | NoPriorDimensionsError
  | InvalidDimensionsError
  | DegenerateGeometryError

section \<open>task1/common/gui.py: Viewer\<close>

text \<open>
  The fields of \<open>Viewer\<close> that \<open>next_frame\<close> reads or writes. \<open>evar\<close> is the text of
  the search bar, \<open>tkimage\<close> the picture shown. The picture type is left abstract.
\<close>

record 'i viewer =
  files :: "string list"
  index :: int
  evar :: string
  tkimage :: 'i

text \<open>\<open>os.path.basename\<close>: what follows the last slash.\<close>

definition basename :: "string \<Rightarrow> string" where
  "basename p = rev (takeWhile (\<lambda>c. c \<noteq> CHR ''/'') (rev p))"

text \<open>
  \<open>next_frame(new_index)\<close>. \<open>get_image\<close> opens and resizes a file (\<open>None\<close>: it raised);
  it is a parameter, the file system being outside the model. Python's \<open>%\<close> with a
  positive divisor is \<open>mod\<close> on \<open>int\<close>; with divisor zero it raises. The index is
  assigned before the file is opened, so it stays assigned when opening fails.
\<close>

definition next_frame ::
  "(string \<Rightarrow> 'i option) \<Rightarrow> 'i viewer \<Rightarrow> int \<Rightarrow> error option \<times> 'i viewer" where
  "next_frame get_image v new_index =
     (if length (files v) = 0 then (Some ZeroDivisionError, v)
      else
        let v1 = v\<lparr>index := new_index mod int (length (files v))\<rparr>;
            filename = files v1 ! nat (index v1)
        in case get_image filename of
             None \<Rightarrow> (Some IOError, v1)
           | Some im \<Rightarrow> (None, v1\<lparr>evar := basename filename, tkimage := im\<rparr>))"

text \<open>The two buttons: \<open>back\<close> and \<open>next\<close>.\<close>

definition back_button :: "(string \<Rightarrow> 'i option) \<Rightarrow> 'i viewer \<Rightarrow> error option \<times> 'i viewer" where
  "back_button get_image v = next_frame get_image v (index v - 1)"

definition next_button :: "(string \<Rightarrow> 'i option) \<Rightarrow> 'i viewer \<Rightarrow> error option \<times> 'i viewer" where
  "next_button get_image v = next_frame get_image v (index v + 1)"

text \<open>Three files, the last one shown: asking for frame 7 shows the second file.\<close>

definition viewer3 :: "unit viewer" where
  "viewer3 = \<lparr>files = [''d/a.png'', ''d/b.png'', ''d/c.png''], index = 2,
              evar = ''c.png'', tkimage = ()\<rparr>"

section \<open>task2/flattening\_module: ImageFlattener\<close>

text \<open>
  \<open>imageflattener.py\<close> and \<open>gui.py\<close> each define a class \<open>ImageFlattener\<close>. Their
  handlers \<open>left_mouse_down\<close>, \<open>_flatten_img\<close>, \<open>reload\<close>, \<open>next_file\<close> and the popup
  closures \<open>skip\<close> and \<open>done\<close> agree statement by statement on the fields below; their
  \<open>save\<close> methods differ in one name and are modelled separately (\<open>save\<close> and
  \<open>gui_save\<close>).

  Floats and images are type parameters \<open>'f\<close> and \<open>'i\<close>. What the classes call in
  modules that are not among the sources, and Python's \<open>float\<close>, is collected in an
  environment.
\<close>

type_synonym point = "int \<times> int"

record ('f, 'i) env =
  float_of :: "string \<Rightarrow> 'f option"
    \<comment> \<open>\<open>float(s)\<close>; \<open>None\<close> when it raises ValueError\<close>
  four_points_correct_aspect :: "'i \<Rightarrow> point list \<Rightarrow> 'f \<Rightarrow> 'f \<Rightarrow> 'i option"
    \<comment> \<open>\<open>nPTransform.four_points_correct_aspect\<close>; \<open>None\<close> when it raises\<close>
  win_to_canvas :: "point \<Rightarrow> point"
  canvas_to_cv :: "point \<Rightarrow> point"
  imread :: "string \<Rightarrow> 'i"
    \<comment> \<open>the picture stored under a source path\<close>

text \<open>
  A dimension popup made by \<open>_request_dims\<close>: whether it is still on screen, and whether
  the ``Use Last'' button was packed into it when it was made.
\<close>

record popup =
  alive :: bool
  has_skip :: bool

text \<open>
  The instance. The first six fields are the attributes the class itself assigns
  (\<open>saved\<close> is a dict, kept in insertion order). \<open>attr_num_saved\<close> is the attribute
  \<open>self._num_saved\<close> that \<open>gui.py\<close> reads in \<open>save\<close> and that neither class assigns:
  \<open>None\<close> when the instance has no such attribute. The remaining fields stand for the
  base class (\<open>ImageProcessor\<close>, \<open>Image_GUI\<close>) and the screen: the source path shown,
  the paths still to come, the output folder, the working picture, the files written,
  whether the run has ended, the popups made so far and what was printed. Dots drawn
  on the canvas and the pan and zoom of the view are not modelled.
\<close>

record ('f, 'i) flattener =
  img_flattened :: bool
  num_saved :: nat
  dim :: "('f \<times> 'f) option"
  clicks :: "point list"
  saved :: "(string \<times> ('f \<times> 'f) option) list"
  attr_num_saved :: "nat option"
  curr_path :: string
  pending :: "string list"
  save_to :: string
  cv_img :: 'i
  disk :: "(string \<times> 'i) list"
  finished :: bool
  popups :: "popup list"
  stdout :: "string list"

subsection \<open>Helpers of the base class\<close>

text \<open>\<open>str(n)\<close> for a natural number, as an f-string renders it.\<close>

definition digit_char :: "nat \<Rightarrow> char" where
  "digit_char d = char_of (48 + d)"

fun str_nat :: "nat \<Rightarrow> string" where
  "str_nat n = (if n < 10 then [digit_char n] else str_nat (n div 10) @ [digit_char (n mod 10)])"

declare str_nat.simps [simp del]

text \<open>
  \<open>os.path.splitext\<close> on a file name: the extension starts at the last dot, and a name
  with no dot has the empty extension.
\<close>

definition splitext :: "string \<Rightarrow> string \<times> string" where
  "splitext b =
     (if CHR ''.'' \<in> set b
      then (let e = takeWhile (\<lambda>c. c \<noteq> CHR ''.'') (rev b)
            in (rev (drop (Suc (length e)) (rev b)), CHR ''.'' # rev e))
      else (b, []))"

text \<open>
  Modelled from the spec: \<open>save_img_to_folder_with_extra\<close> belongs to the base class,
  which is not among the sources. The spec names the file it writes
  \<open><original-stem>_flat[_<n>].<ext>\<close> in the output folder; the method writes the working
  picture there and returns the path.
\<close>

definition out_path :: "string \<Rightarrow> string \<Rightarrow> string \<Rightarrow> string" where
  "out_path folder src extra =
     (let (stem, ext) = splitext (basename src) in folder @ ''/'' @ stem @ extra @ ext)"

definition save_img_to_folder_with_extra ::
  "string \<Rightarrow> ('f, 'i) flattener \<Rightarrow> string \<times> ('f, 'i) flattener" where
  "save_img_to_folder_with_extra extra s =
     (let path = out_path (save_to s) (curr_path s) extra
      in (path, s\<lparr>disk := disk s @ [(path, cv_img s)]\<rparr>))"

text \<open>
  Modelled from the spec: the base class's \<open>reload\<close> is not among the sources. The spec
  has it discard the working picture and restore the original source picture.
\<close>

definition base_reload :: "('f, 'i) env \<Rightarrow> ('f, 'i) flattener \<Rightarrow> ('f, 'i) flattener" where
  "base_reload E s = s\<lparr>cv_img := imread E (curr_path s)\<rparr>"

subsection \<open>The handlers\<close>

text \<open>\<open>_request_dims\<close>: a new popup, with ``Use Last'' only if \<open>self.dim is not None\<close>.\<close>

definition request_dims :: "('f, 'i) flattener \<Rightarrow> ('f, 'i) flattener" where
  "request_dims s = s\<lparr>popups := popups s @ [\<lparr>alive = True, has_skip = (dim s \<noteq> None)\<rparr>]\<rparr>"

definition left_mouse_down ::
  "('f, 'i) env \<Rightarrow> point \<Rightarrow> ('f, 'i) flattener \<Rightarrow> ('f, 'i) flattener" where
  "left_mouse_down E ev s =
     (if img_flattened s then s
      else
        let s1 = s\<lparr>clicks := clicks s @ [win_to_canvas E ev]\<rparr>
        in if length (clicks s1) \<ge> 4
           then request_dims (s1\<lparr>img_flattened := True\<rparr>)
           else s1)"

text \<open>
  \<open>_flatten_img\<close>: the assertion, then the corner array, then the arguments of the call
  (\<open>self.dim[0]\<close> raises TypeError on \<open>None\<close>), then the call.
\<close>

definition flatten_img ::
  "('f, 'i) env \<Rightarrow> ('f, 'i) flattener \<Rightarrow> error option \<times> ('f, 'i) flattener" where
  "flatten_img E s =
     (if length (clicks s) \<noteq> 4 then (Some AssertionError, s)
      else
        let rect = map (canvas_to_cv E) (clicks s)
        in case dim s of
             None \<Rightarrow> (Some TypeError, s)
           | Some (d0, d1) \<Rightarrow>
               (case four_points_correct_aspect E (cv_img s) rect d0 d1 of
                  None \<Rightarrow> (Some WarpError, s)
                | Some flat \<Rightarrow> (None, s\<lparr>cv_img := flat, clicks := []\<rparr>)))"

text \<open>\<open>pop.destroy()\<close> for the popup numbered \<open>k\<close>.\<close>

fun kill :: "nat \<Rightarrow> popup list \<Rightarrow> popup list" where
  "kill k [] = []"
| "kill 0 (p # ps) = p\<lparr>alive := False\<rparr> # ps"
| "kill (Suc k) (p # ps) = p # kill k ps"

definition destroy :: "nat \<Rightarrow> ('f, 'i) flattener \<Rightarrow> ('f, 'i) flattener" where
  "destroy k s = s\<lparr>popups := kill k (popups s)\<rparr>"

text \<open>The closures \<open>skip\<close> and \<open>done\<close> of popup \<open>k\<close>.\<close>

definition skip ::
  "('f, 'i) env \<Rightarrow> nat \<Rightarrow> ('f, 'i) flattener \<Rightarrow> error option \<times> ('f, 'i) flattener" where
  "skip E k s = flatten_img E (destroy k s)"

definition print :: "string \<Rightarrow> ('f, 'i) flattener \<Rightarrow> ('f, 'i) flattener" where
  "print msg s = s\<lparr>stdout := stdout s @ [msg]\<rparr>"

definition done_dims ::
  "('f, 'i) env \<Rightarrow> nat \<Rightarrow> string \<Rightarrow> string \<Rightarrow> ('f, 'i) flattener
     \<Rightarrow> error option \<times> ('f, 'i) flattener" where
  "done_dims E k short_str long_str s =
     (case float_of E short_str of
        None \<Rightarrow> (None, print ''That's not a number.'' s)
      | Some short \<Rightarrow>
          (case float_of E long_str of
             None \<Rightarrow> (None, print ''That's not a number.'' s)
           | Some long \<Rightarrow> flatten_img E (destroy k (s\<lparr>dim := Some (short, long)\<rparr>))))"

definition reload :: "('f, 'i) env \<Rightarrow> ('f, 'i) flattener \<Rightarrow> ('f, 'i) flattener" where
  "reload E s = (base_reload E s)\<lparr>img_flattened := False, clicks := []\<rparr>"

text \<open>
  Modelled from the spec: \<open>load_next_img_or_end\<close> belongs to the base class, which is not
  among the sources. The spec has it advance to the next path of the source list, with
  the corner list emptied as on a reload, and end the run when the list is exhausted.
\<close>

definition load_next_img_or_end ::
  "('f, 'i) env \<Rightarrow> ('f, 'i) flattener \<Rightarrow> ('f, 'i) flattener" where
  "load_next_img_or_end E s =
     (case pending s of
        [] \<Rightarrow> s\<lparr>finished := True\<rparr>
      | p # ps \<Rightarrow> reload E (s\<lparr>curr_path := p, pending := ps\<rparr>))"

definition next_file :: "('f, 'i) env \<Rightarrow> ('f, 'i) flattener \<Rightarrow> ('f, 'i) flattener" where
  "next_file E s = load_next_img_or_end E (s\<lparr>img_flattened := False, num_saved := 0\<rparr>)"

text \<open>
  What both \<open>save\<close> methods do once the suffix is formatted: write the file, record the
  path with \<open>self.dim\<close>, count, reload.
\<close>

definition save_with ::
  "('f, 'i) env \<Rightarrow> string \<Rightarrow> ('f, 'i) flattener \<Rightarrow> ('f, 'i) flattener" where
  "save_with E extra s =
     (let (path, s1) = save_img_to_folder_with_extra extra s;
          s2 = s1\<lparr>saved := AList.update path (dim s1) (saved s1)\<rparr>;
          s3 = s2\<lparr>num_saved := num_saved s2 + 1\<rparr>
      in reload E s3)"

text \<open>\<open>save\<close> of \<open>imageflattener.py\<close>: the suffix is formatted from \<open>self.__num_saved\<close>.\<close>

definition save :: "('f, 'i) env \<Rightarrow> ('f, 'i) flattener \<Rightarrow> ('f, 'i) flattener" where
  "save E s =
     (if img_flattened s then
        (if num_saved s > 0
         then save_with E (''_flat_'' @ str_nat (num_saved s)) s
         else save_with E ''_flat'' s)
      else s)"

text \<open>
  \<open>save\<close> of \<open>gui.py\<close>: the suffix is formatted from \<open>self._num_saved\<close>, which is not
  the counter (that one is \<open>self.__num_saved\<close>, stored as \<open>_ImageFlattener__num_saved\<close>).
  Reading an attribute the instance does not have raises AttributeError, before anything
  is written.
\<close>

definition gui_save ::
  "('f, 'i) env \<Rightarrow> ('f, 'i) flattener \<Rightarrow> error option \<times> ('f, 'i) flattener" where
  "gui_save E s =
     (if img_flattened s then
        (if num_saved s > 0
         then (case attr_num_saved s of
                 None \<Rightarrow> (Some AttributeError, s)
               | Some n \<Rightarrow> (None, save_with E (''_flat_'' @ str_nat n) s))
         else (None, save_with E ''_flat'' s))
      else (None, s))"

subsection \<open>Events\<close>

text \<open>
  What the user can do. A button of a popup can only be pressed while the popup is on
  screen, and ``Use Last'' only if the popup has that button. An exception raised by a
  handler is reported by Tkinter and the event loop goes on with the state as it is.
\<close>

datatype event =
    Click point
  | Reload
  | Save
  | Next
  | Done nat string string
  | UseLast nat

definition step ::
  "('f, 'i) env \<Rightarrow> event \<Rightarrow> ('f, 'i) flattener \<Rightarrow> error option \<times> ('f, 'i) flattener" where
  "step E e s =
     (case e of
        Click p \<Rightarrow> (None, left_mouse_down E p s)
      | Reload \<Rightarrow> (None, reload E s)
      | Save \<Rightarrow> (None, save E s)
      | Next \<Rightarrow> (None, next_file E s)
      | Done k short_str long_str \<Rightarrow>
          (if k < length (popups s) \<and> alive (popups s ! k)
           then done_dims E k short_str long_str s else (None, s))
      | UseLast k \<Rightarrow>
          (if k < length (popups s) \<and> alive (popups s ! k) \<and> has_skip (popups s ! k)
           then skip E k s else (None, s)))"

fun run :: "('f, 'i) env \<Rightarrow> event list \<Rightarrow> ('f, 'i) flattener \<Rightarrow> ('f, 'i) flattener" where
  "run E [] s = s"
| "run E (e # es) s = run E es (snd (step E e s))"

text \<open>
  The instance after \<open>__init__\<close> and the first \<open>reload\<close>, on a non-empty list of source
  paths.
\<close>

definition init ::
  "('f, 'i) env \<Rightarrow> string \<Rightarrow> string list \<Rightarrow> string \<Rightarrow> nat option \<Rightarrow> ('f, 'i) flattener" where
  "init E p ps folder attr =
     \<lparr>img_flattened = False, num_saved = 0, dim = None, clicks = [], saved = [],
      attr_num_saved = attr, curr_path = p, pending = ps, save_to = folder,
      cv_img = imread E p, disk = [], finished = False, popups = [], stdout = []\<rparr>"

text \<open>
  The states of the specification, read off the fields: the flag is set by the fourth
  click, and \<open>_flatten_img\<close> empties the click list when it has replaced the picture.
\<close>

datatype phase = CollectingCorners | AwaitingDimensions | Flattened

definition phase :: "('f, 'i) flattener \<Rightarrow> phase" where
  "phase s =
     (if \<not> img_flattened s then CollectingCorners
      else if clicks s = [] then Flattened
      else AwaitingDimensions)"

subsection \<open>A concrete environment\<close>

text \<open>
  For running the model on examples: pictures are terms that record how they were made,
  and floats are reals. \<open>float_of_decimal\<close> is \<open>float\<close> restricted to an optional sign
  followed by decimal digits, the only numerals the examples enter; every example
  string outside that shape (\<open>''abc''\<close>, the empty string) is one that \<open>float\<close> rejects
  too. The general theorems hold for every environment.
\<close>

datatype picture = Source string | Flat picture "point list" real real

definition digit_val :: "char \<Rightarrow> nat option" where
  "digit_val c =
     (let n = (of_char c :: nat) in if 48 \<le> n \<and> n \<le> 57 then Some (n - 48) else None)"

fun digits_val :: "string \<Rightarrow> nat \<Rightarrow> nat option" where
  "digits_val [] acc = Some acc"
| "digits_val (c # cs) acc =
     (case digit_val c of None \<Rightarrow> None | Some d \<Rightarrow> digits_val cs (10 * acc + d))"

definition unsigned_decimal :: "string \<Rightarrow> real option" where
  "unsigned_decimal ds = (if ds = [] then None else map_option real (digits_val ds 0))"

definition float_of_decimal :: "string \<Rightarrow> real option" where
  "float_of_decimal str =
     (case str of
        [] \<Rightarrow> None
      | c # cs \<Rightarrow>
          if c = CHR ''-'' then map_option uminus (unsigned_decimal cs)
          else if c = CHR ''+'' then unsigned_decimal cs
          else unsigned_decimal str)"

definition E0 :: "(real, picture) env" where
  "E0 = \<lparr>float_of = float_of_decimal,
         four_points_correct_aspect = (\<lambda>img rect d0 d1. Some (Flat img rect d0 d1)),
         win_to_canvas = (\<lambda>p. p),
         canvas_to_cv = (\<lambda>p. p),
         imread = Source\<rparr>"

text \<open>One source picture, \<open>in/a.jpg\<close>, output folder \<open>out\<close>, just loaded.\<close>

definition start :: "nat option \<Rightarrow> (real, picture) flattener" where
  "start attr = init E0 ''in/a.jpg'' [] ''out'' attr"

definition four_clicks :: "event list" where
  "four_clicks = [Click (10, 10), Click (110, 10), Click (110, 60), Click (10, 60)]"

text \<open>
  States reached in the example runs: after four clicks on a fresh picture, while the
  first dimension popup is open; and after a first entry of dimensions, a reload and
  four more clicks, while the second popup is open.
\<close>

definition s_await :: "(real, picture) flattener" where
  "s_await = run E0 four_clicks (start None)"

definition s_dims :: "(real, picture) flattener" where
  "s_dims = run E0 (four_clicks @ [Done 0 ''50'' ''100'', Reload] @ four_clicks) (start None)"

text \<open>
  A run of the class of \<open>gui.py\<close> on an instance without the attribute \<open>_num_saved\<close>:
  four clicks, dimensions 50 by 100, a first save; then four clicks and ``Use Last'',
  so that the picture is flattened again and the counter is 1.
\<close>

definition gui_run1 :: "(real, picture) flattener" where
  "gui_run1 = snd (gui_save E0 (run E0 (four_clicks @ [Done 0 ''50'' ''100'']) (start None)))"

definition gui_run2 :: "(real, picture) flattener" where
  "gui_run2 = run E0 (four_clicks @ [UseLast 1]) gui_run1"

section \<open>task2/flattening\_module/imageflattener.py: \_parse\_input\<close>

text \<open>
  What \<open>json.load\<close> returns. An object is a dict, kept as the list of its items in
  order (its keys are distinct strings).
\<close>

datatype json =
    JNull
  | JBool bool
  | JInt int
  | JFloat real
  | JString string
  | JArray "json list"
  | JObject "(string \<times> json) list"

text \<open>\<open>isinstance(x, int)\<close>: \<open>bool\<close> is a subclass of \<open>int\<close>.\<close>

fun is_int :: "json \<Rightarrow> bool" where
  "is_int (JInt n) = True"
| "is_int (JBool b) = True"
| "is_int x = False"

text \<open>Lists and dicts cannot be dict keys: assigning under one raises TypeError.\<close>

fun hashable :: "json \<Rightarrow> bool" where
  "hashable (JArray xs) = False"
| "hashable (JObject kvs) = False"
| "hashable x = True"

text \<open>
  The test on one \<open>point\<close> of the hint list \<open>v = images_input[key]\<close>, conjunct by
  conjunct, left to right: \<open>isinstance(point, list)\<close>, then \<open>len(images_input[key]) == 2\<close>
  (the length of the hint list, as the source has it), then \<open>point[0]\<close> and \<open>point[1]\<close>,
  which raise IndexError on a point that is too short. \<open>None\<close>: the test passed.
\<close>

fun check_point :: "json list \<Rightarrow> json \<Rightarrow> error option" where
  "check_point v (JArray pt) =
     (if length v = 2 then
        (case pt of
           [] \<Rightarrow> Some IndexError
         | x # rest \<Rightarrow>
             if is_int x then
               (case rest of
                  [] \<Rightarrow> Some IndexError
                | y # _ \<Rightarrow> if is_int y then None else Some JsonFormatError)
             else Some JsonFormatError)
      else Some JsonFormatError)"
| "check_point v point = Some JsonFormatError"

text \<open>The loop over the points of one hint list.\<close>

fun check_points :: "json list \<Rightarrow> json list \<Rightarrow> error option" where
  "check_points v [] = None"
| "check_points v (point # points) =
     (case check_point v point of Some e \<Rightarrow> Some e | None \<Rightarrow> check_points v points)"

text \<open>
  The result dict, in insertion order. A key gets \<open>[]\<close> first and, after each point that
  passes, the whole hint list \<open>tuple(images_input[key])\<close>: either way, the hint list as
  given once the loop is through. Keys are compared as HOL values (Python would also
  identify \<open>1\<close>, \<open>1.0\<close> and \<open>True\<close>).
\<close>

type_synonym panels = "(json \<times> json list) list"

fun parse_dict :: "(string \<times> json) list \<Rightarrow> panels \<Rightarrow> error + panels" where
  "parse_dict [] acc = Inr acc"
| "parse_dict ((key, JArray v) # rest) acc =
     (case check_points v v of
        Some e \<Rightarrow> Inl e
      | None \<Rightarrow> parse_dict rest (AList.update (JString key) v acc))"
| "parse_dict ((key, value) # rest) acc = Inl JsonFormatError"

fun parse_list :: "json list \<Rightarrow> panels \<Rightarrow> error + panels" where
  "parse_list [] acc = Inr acc"
| "parse_list (key # keys) acc =
     (if hashable key then parse_list keys (AList.update key [] acc) else Inl TypeError)"

fun parse_input :: "json \<Rightarrow> error + panels" where
  "parse_input (JObject kvs) = parse_dict kvs []"
| "parse_input (JArray xs) = parse_list xs []"
| "parse_input other = Inl JsonFormatError"

text \<open>
  What the claim asks of one hint list: every entry is a list of exactly two integers.
\<close>

fun int_pair :: "json \<Rightarrow> bool" where
  "int_pair (JArray [x, y]) = (is_int x \<and> is_int y)"
| "int_pair j = False"

section \<open>The warp\<close>

text \<open>
  Python's \<open>round\<close> on a float: to the nearest integer, a tie to the even one.
\<close>

definition py_round :: "real \<Rightarrow> int" where
  "py_round x =
     (let f = \<lfloor>x\<rfloor>; d = x - of_int f
      in if d < 1 / 2 then f else if 1 / 2 < d then f + 1 else if even f then f else f + 1)"

type_synonym rpoint = "real \<times> real"

definition collinear3 :: "rpoint \<Rightarrow> rpoint \<Rightarrow> rpoint \<Rightarrow> bool" where
  "collinear3 p q r =
     ((fst q - fst p) * (snd r - snd p) - (snd q - snd p) * (fst r - fst p) = 0)"

text \<open>A corner set is degenerate when three of its points lie on a line.\<close>

definition degenerate :: "rpoint \<times> rpoint \<times> rpoint \<times> rpoint \<Rightarrow> bool" where
  "degenerate cs =
     (case cs of (a, b, c, d) \<Rightarrow>
        collinear3 a b c \<or> collinear3 a b d \<or> collinear3 a c d \<or> collinear3 b c d)"

text \<open>
  A raster: its width, its height and its pixels, row by row.
\<close>

record 'c raster =
  width :: nat
  height :: nat
  buffer :: "'c list"

text \<open>The pixel positions of a grid of \<open>w\<close> columns and \<open>h\<close> rows, row by row.\<close>

definition grid :: "nat \<Rightarrow> nat \<Rightarrow> (nat \<times> nat) list" where
  "grid w h = concat (map (\<lambda>j. map (\<lambda>i. (i, j)) [0..<w]) [0..<h])"

text \<open>
  Modelled from the spec: \<open>nPTransform.four_points_correct_aspect\<close>, the warp that
  \<open>_flatten_img\<close> calls, is not among the sources. The spec's contract
  \<open>warp(image, corners, targetShort, targetLong)\<close>: it signals InvalidDimensionsError
  when either side is not positive and DegenerateGeometryError when the mapping is not
  invertible, and otherwise resamples the source into a destination grid of
  \<open>round(targetShort)\<close> by \<open>round(targetLong)\<close> pixels. How one destination pixel is
  computed (inverse mapping, interpolation, fill) is left to the implementer by the spec;
  it is the parameter \<open>resample\<close> here.
\<close>

definition warp ::
  "('c raster \<Rightarrow> rpoint \<times> rpoint \<times> rpoint \<times> rpoint \<Rightarrow> nat \<Rightarrow> nat \<Rightarrow> nat \<times> nat \<Rightarrow> 'c)
     \<Rightarrow> 'c raster \<Rightarrow> rpoint \<times> rpoint \<times> rpoint \<times> rpoint \<Rightarrow> real \<Rightarrow> real
     \<Rightarrow> error + 'c raster" where
  "warp resample img corners targetShort targetLong =
     (if targetShort \<le> 0 \<or> targetLong \<le> 0 then Inl InvalidDimensionsError
      else if degenerate corners then Inl DegenerateGeometryError
      else
        let w = nat (py_round targetShort); h = nat (py_round targetLong)
        in Inr \<lparr>width = w, height = h,
                buffer = map (resample img corners w h) (grid w h)\<rparr>)"

text \<open>A source raster of 200 by 100 pixels, for the example.\<close>

definition blank :: "unit raster" where
  "blank = \<lparr>width = 200, height = 100, buffer = replicate 20000 ()\<rparr>"

section \<open>Auxiliary notions\<close>

text \<open>
  Two states agree on what decides the name and the bookkeeping of the next save: the
  counter, the source path, the output folder, the manifest and the files written.
\<close>

definition same_image :: "('f, 'i) flattener \<Rightarrow> ('f, 'i) flattener \<Rightarrow> bool" where
  "same_image s t =
     (num_saved t = num_saved s \<and> curr_path t = curr_path s \<and> save_to t = save_to s
      \<and> saved t = saved s \<and> disk t = disk s)"

text \<open>The suffix that \<open>save\<close> of \<open>imageflattener.py\<close> formats when the counter is \<open>n\<close>.\<close>

definition flat_extra :: "nat \<Rightarrow> string" where
  "flat_extra n = (if 0 < n then ''_flat_'' @ str_nat n else ''_flat'')"

text \<open>
  The bound on the click list that \<open>left_mouse_down\<close> maintains: at most four entries,
  and four only once the flag is set.
\<close>

definition click_inv :: "('f, 'i) flattener \<Rightarrow> bool" where
  "click_inv s = (length (clicks s) \<le> 4 \<and> (img_flattened s \<or> length (clicks s) < 4))"

section \<open>Viewer: cyclic navigation\<close>

lemma next_frame_index:
  "files v \<noteq> [] \<Longrightarrow>
   index (snd (next_frame g v n)) = n mod int (length (files v))"
  by (simp add: next_frame_def Let_def split: option.split)

lemma next_frame_files: "files (snd (next_frame g v n)) = files v"
  by (simp add: next_frame_def Let_def split: option.split)

text \<open>
  Claim C10. For every integer \<open>n\<close> and every non-empty file list, \<open>next_frame n\<close> sets
  the index to \<open>n\<close> modulo the number of files, so the index is in range, and the file
  list is untouched; \<open>next\<close> pressed on the last file gives index 0 and \<open>back\<close> pressed on
  the first file gives the last index. No call on a non-empty list raises
  ZeroDivisionError, so navigation has no terminal state.
\<close>

theorem next_frame_wraps:
  "files v \<noteq> [] \<Longrightarrow>
     index (snd (next_frame g v n)) = n mod int (length (files v))
   \<and> 0 \<le> index (snd (next_frame g v n))
   \<and> index (snd (next_frame g v n)) < int (length (files v))
   \<and> files (snd (next_frame g v n)) = files v
   \<and> fst (next_frame g v n) \<noteq> Some ZeroDivisionError
   \<and> index (snd (next_button g (v\<lparr>index := int (length (files v)) - 1\<rparr>))) = 0
   \<and> index (snd (back_button g (v\<lparr>index := 0\<rparr>))) = int (length (files v)) - 1"
proof -
  assume ne: "files v \<noteq> []"
  then have len: "0 < int (length (files v))" by simp
  have idx: "index (snd (next_frame g v n)) = n mod int (length (files v))"
    using ne by (rule next_frame_index)
  have lo: "0 \<le> index (snd (next_frame g v n))"
    and hi: "index (snd (next_frame g v n)) < int (length (files v))"
    using idx len by simp_all
  have fs: "files (snd (next_frame g v n)) = files v" by (rule next_frame_files)
  have nz: "fst (next_frame g v n) \<noteq> Some ZeroDivisionError"
    using ne by (simp add: next_frame_def Let_def split: option.split)
  have nx: "index (snd (next_button g (v\<lparr>index := int (length (files v)) - 1\<rparr>))) = 0"
    using ne by (simp add: next_button_def next_frame_index)
  have "index (snd (back_button g (v\<lparr>index := 0\<rparr>))) = (- 1) mod int (length (files v))"
    using ne by (simp add: back_button_def next_frame_index)
  also have "\<dots> = int (length (files v)) - 1"
    using len by (simp add: zmod_minus1)
  finally have bk: "index (snd (back_button g (v\<lparr>index := 0\<rparr>))) = int (length (files v)) - 1" .
  from idx lo hi fs nz nx bk show ?thesis by blast
qed

theorem next_frame_wraps_witness:
  "files viewer3 \<noteq> []
   \<and> index (snd (next_frame (\<lambda>f. Some ()) viewer3 7)) = 1
   \<and> index (snd (next_button (\<lambda>f. Some ()) viewer3)) = 0
   \<and> index (snd (back_button (\<lambda>f. Some ()) (viewer3\<lparr>index := 0\<rparr>))) = 2"
proof -
  have ne: "files viewer3 \<noteq> []" by (simp add: viewer3_def)
  have v: "viewer3\<lparr>index := 2\<rparr> = viewer3"
    by (simp add: viewer3_def)
  have l: "int (length (files viewer3)) = 3" by (simp add: viewer3_def)
  from next_frame_wraps [OF ne, of "\<lambda>f. Some ()" 7] show ?thesis
    using ne by (simp add: l v)
qed

section \<open>ImageFlattener: file names\<close>

lemma str_nat_0: "n < 10 \<Longrightarrow> str_nat n = [digit_char n]"
  by (simp add: str_nat.simps)

lemma digit_char_inj: "a < 10 \<Longrightarrow> b < 10 \<Longrightarrow> digit_char a = digit_char b \<Longrightarrow> a = b"
proof -
  assume a: "a < 10" and b: "b < 10" and e: "digit_char a = digit_char b"
  from e have "(of_char (char_of (48 + a)) :: nat) = of_char (char_of (48 + b))"
    by (simp add: digit_char_def)
  then have "(48 + a) mod 256 = (48 + b) mod 256"
    by (simp only: of_char_of)
  with a b show "a = b" by simp
qed

lemma str_nat_nonempty: "str_nat n \<noteq> []"
  by (subst str_nat.simps) simp

lemma str_nat_inj: "str_nat m = str_nat n \<Longrightarrow> m = n"
proof (induction m arbitrary: n rule: str_nat.induct)
  case (1 m)
  show ?case
  proof (cases "m < 10")
    case True
    then have m: "str_nat m = [digit_char m]" by (rule str_nat_0)
    show ?thesis
    proof (cases "n < 10")
      case n: True
      with True m "1.prems" show ?thesis
        by (auto simp: str_nat_0 dest: digit_char_inj)
    next
      case False
      then have "str_nat n = str_nat (n div 10) @ [digit_char (n mod 10)]"
        by (subst str_nat.simps) simp
      with m "1.prems" have "str_nat (n div 10) = []" by simp
      then show ?thesis by (simp add: str_nat_nonempty)
    qed
  next
    case False
    then have m: "str_nat m = str_nat (m div 10) @ [digit_char (m mod 10)]"
      by (subst str_nat.simps) simp
    show ?thesis
    proof (cases "n < 10")
      case True
      then have "str_nat n = [digit_char n]" by (rule str_nat_0)
      with m "1.prems" have "str_nat (m div 10) = []" by simp
      then show ?thesis by (simp add: str_nat_nonempty)
    next
      case n: False
      then have "str_nat n = str_nat (n div 10) @ [digit_char (n mod 10)]"
        by (subst str_nat.simps) simp
      with m "1.prems" have q: "str_nat (m div 10) = str_nat (n div 10)"
        and r: "digit_char (m mod 10) = digit_char (n mod 10)" by simp_all
      from "1.IH" [OF False q] have "m div 10 = n div 10" .
      moreover from r have "m mod 10 = n mod 10" by (auto dest!: digit_char_inj [rotated 2])
      ultimately show ?thesis by (metis div_mult_mod_eq)
    qed
  qed
qed

text \<open>The suffix \<open>save\<close> formats from the counter.\<close>

lemma out_path_inj: "out_path d src e1 = out_path d src e2 \<Longrightarrow> e1 = e2"
  by (simp add: out_path_def split: prod.splits)

lemma flat_suffix_distinct:
  "(if 0 < m then ''_flat_'' @ str_nat m else ''_flat'') \<noteq> ''_flat_'' @ str_nat (Suc m)"
proof (cases "0 < m")
  case True
  have "str_nat m \<noteq> str_nat (Suc m)" using str_nat_inj [of m "Suc m"] by auto
  with True show ?thesis by simp
next
  case False
  then show ?thesis by auto
qed


subsection \<open>What the handlers leave alone\<close>

lemma same_image_refl: "same_image s s"
  by (simp add: same_image_def)

lemma same_image_trans: "same_image s t \<Longrightarrow> same_image t u \<Longrightarrow> same_image s u"
  by (simp add: same_image_def)

lemma same_image_click: "same_image s (left_mouse_down E p s)"
  by (simp add: same_image_def left_mouse_down_def request_dims_def Let_def)

lemma same_image_reload: "same_image s (reload E s)"
  by (simp add: same_image_def reload_def base_reload_def)

lemma same_image_flatten: "same_image s (snd (flatten_img E s))"
  by (simp add: same_image_def flatten_img_def Let_def split: option.split prod.split)

lemma same_image_skip: "same_image s (snd (skip E k s))"
proof -
  have "same_image s (destroy k s)" by (simp add: same_image_def destroy_def)
  then show ?thesis unfolding skip_def
    by (rule same_image_trans) (rule same_image_flatten)
qed

lemma same_image_done: "same_image s (snd (done_dims E k a b s))"
proof (cases "float_of E a")
  case None
  then show ?thesis by (simp add: done_dims_def print_def same_image_def)
next
  case (Some x)
  show ?thesis
  proof (cases "float_of E b")
    case None
    with Some show ?thesis by (simp add: done_dims_def print_def same_image_def)
  next
    case (Some y)
    have "same_image s (destroy k (s\<lparr>dim := Some (x, y)\<rparr>))"
      by (simp add: same_image_def destroy_def)
    then have "same_image s (snd (flatten_img E (destroy k (s\<lparr>dim := Some (x, y)\<rparr>))))"
      by (rule same_image_trans) (rule same_image_flatten)
    with Some \<open>float_of E a = Some x\<close> show ?thesis by (simp add: done_dims_def)
  qed
qed

lemma same_image_step:
  "e \<noteq> Save \<Longrightarrow> e \<noteq> Next \<Longrightarrow> same_image s (snd (step E e s))"
  by (cases e)
    (simp_all add: step_def same_image_click same_image_reload same_image_done
       same_image_skip same_image_refl)

lemma same_image_run:
  "Save \<notin> set es \<Longrightarrow> Next \<notin> set es \<Longrightarrow> same_image s (run E es s)"
proof (induction es arbitrary: s)
  case Nil
  then show ?case by (simp add: same_image_refl)
next
  case (Cons e es)
  then have "same_image s (snd (step E e s))" by (auto intro: same_image_step)
  moreover have "same_image (snd (step E e s)) (run E es (snd (step E e s)))"
    using Cons by simp
  ultimately show ?case by (auto intro: same_image_trans)
qed

subsection \<open>save\<close>

lemma save_with_fields:
  "disk (save_with E x s) = disk s @ [(out_path (save_to s) (curr_path s) x, cv_img s)]"
  "saved (save_with E x s) = AList.update (out_path (save_to s) (curr_path s) x) (dim s) (saved s)"
  "num_saved (save_with E x s) = Suc (num_saved s)"
  "curr_path (save_with E x s) = curr_path s"
  "save_to (save_with E x s) = save_to s"
  "dim (save_with E x s) = dim s"
  "\<not> img_flattened (save_with E x s)"
  "clicks (save_with E x s) = []"
  by (simp_all add: save_with_def save_img_to_folder_with_extra_def reload_def
        base_reload_def Let_def)

lemma save_not_flattened: "\<not> img_flattened s \<Longrightarrow> save E s = s"
  by (simp add: save_def)

lemma save_flattened: "img_flattened s \<Longrightarrow> save E s = save_with E (flat_extra (num_saved s)) s"
  by (simp add: save_def flat_extra_def)

lemma flat_extra_Suc: "flat_extra n \<noteq> flat_extra (Suc n)"
  using flat_suffix_distinct [of n] by (simp add: flat_extra_def)

lemma save_twice_distinct:
  assumes f1: "img_flattened s"
    and es: "Save \<notin> set es" "Next \<notin> set es"
    and f2: "img_flattened (run E es (save E s))"
  shows "\<exists>p1 p2. p1 \<noteq> p2
     \<and> disk (save E (run E es (save E s)))
         = disk s @ [(p1, cv_img s), (p2, cv_img (run E es (save E s)))]
     \<and> saved (save E (run E es (save E s)))
         = AList.update p2 (dim (run E es (save E s))) (AList.update p1 (dim s) (saved s))
     \<and> p1 = out_path (save_to s) (curr_path s) (flat_extra (num_saved s))
     \<and> p2 = out_path (save_to s) (curr_path s) (flat_extra (Suc (num_saved s)))"
proof -
  let ?s1 = "save E s"
  let ?s2 = "run E es ?s1"
  let ?p1 = "out_path (save_to s) (curr_path s) (flat_extra (num_saved s))"
  let ?p2 = "out_path (save_to s) (curr_path s) (flat_extra (Suc (num_saved s)))"
  have s1: "?s1 = save_with E (flat_extra (num_saved s)) s" using f1 by (rule save_flattened)
  have same: "same_image ?s1 ?s2" using es by (rule same_image_run)
  have n2: "num_saved ?s2 = Suc (num_saved s)" and c2: "curr_path ?s2 = curr_path s"
    and t2: "save_to ?s2 = save_to s"
    and d2: "disk ?s2 = disk s @ [(?p1, cv_img s)]"
    and m2: "saved ?s2 = AList.update ?p1 (dim s) (saved s)"
    using same by (simp_all add: same_image_def s1 save_with_fields)
  have s3: "save E ?s2 = save_with E (flat_extra (num_saved ?s2)) ?s2"
    using f2 by (rule save_flattened)
  have ne: "?p1 \<noteq> ?p2" using flat_extra_Suc [of "num_saved s"] by (auto dest: out_path_inj)
  have "disk (save E ?s2) = disk s @ [(?p1, cv_img s), (?p2, cv_img ?s2)]"
    by (simp add: s3 save_with_fields n2 c2 t2 d2)
  moreover have "saved (save E ?s2) = AList.update ?p2 (dim ?s2) (AList.update ?p1 (dim s) (saved s))"
    by (simp add: s3 save_with_fields n2 c2 t2 m2)
  ultimately show ?thesis using ne by blast
qed

lemma update_fresh_length:
  "k \<notin> fst ` set al \<Longrightarrow> length (AList.update k v al) = Suc (length al)"
  by (induction al) auto

section \<open>Example runs, evaluated\<close>

lemmas model_defs = step_def left_mouse_down_def request_dims_def flatten_img_def destroy_def
  skip_def print_def done_dims_def reload_def base_reload_def load_next_img_or_end_def
  next_file_def save_with_def save_def gui_save_def save_img_to_folder_with_extra_def
  out_path_def splitext_def basename_def init_def start_def E0_def four_clicks_def
  float_of_decimal_def unsigned_decimal_def digit_val_def phase_def Let_def

lemma s_await_eq: "s_await =
  \<lparr>img_flattened = True, num_saved = 0, dim = None,
    clicks = [(10, 10), (110, 10), (110, 60), (10, 60)], saved = [],
    attr_num_saved = None, curr_path = ''in/a.jpg'', pending = [],
    save_to = ''out'', cv_img = Source ''in/a.jpg'', disk = [],
    finished = False, popups = [\<lparr>alive = True, has_skip = False\<rparr>],
    stdout = []\<rparr>"
  by (simp add: s_await_def model_defs)

lemma gui_run1_eq: "gui_run1 =
  \<lparr>img_flattened = False, num_saved = 1, dim = Some (50, 100), clicks = [],
    saved = [(''out/a_flat.jpg'', Some (50, 100))], attr_num_saved = None,
    curr_path = ''in/a.jpg'', pending = [], save_to = ''out'',
    cv_img = Source ''in/a.jpg'',
    disk = [(''out/a_flat.jpg'',
             Flat (Source ''in/a.jpg'') [(10, 10), (110, 10), (110, 60), (10, 60)] 50 100)],
    finished = False, popups = [\<lparr>alive = False, has_skip = False\<rparr>], stdout = []\<rparr>"
  by (simp add: gui_run1_def model_defs)

lemma gui_run2_eq: "gui_run2 =
  \<lparr>img_flattened = True, num_saved = 1, dim = Some (50, 100), clicks = [],
    saved = [(''out/a_flat.jpg'', Some (50, 100))], attr_num_saved = None,
    curr_path = ''in/a.jpg'', pending = [], save_to = ''out'',
    cv_img = Flat (Source ''in/a.jpg'') [(10, 10), (110, 10), (110, 60), (10, 60)] 50 100,
    disk = [(''out/a_flat.jpg'',
             Flat (Source ''in/a.jpg'') [(10, 10), (110, 10), (110, 60), (10, 60)] 50 100)],
    finished = False,
    popups = [\<lparr>alive = False, has_skip = False\<rparr>, \<lparr>alive = False, has_skip = True\<rparr>],
    stdout = []\<rparr>"
  by (simp add: gui_run2_def gui_run1_eq model_defs)

lemma s_dims_eq: "s_dims =
  \<lparr>img_flattened = True, num_saved = 0, dim = Some (50, 100),
    clicks = [(10, 10), (110, 10), (110, 60), (10, 60)], saved = [],
    attr_num_saved = None, curr_path = ''in/a.jpg'', pending = [],
    save_to = ''out'', cv_img = Source ''in/a.jpg'', disk = [],
    finished = False,
    popups = [\<lparr>alive = False, has_skip = False\<rparr>, \<lparr>alive = True, has_skip = True\<rparr>],
    stdout = []\<rparr>"
  by (simp add: s_dims_def model_defs)

section \<open>Saving twice\<close>

lemma update_keys_fresh:
  "k \<notin> fst ` set al \<Longrightarrow> fst ` set (AList.update k v al) = insert k (fst ` set al)"
  by (induction al) auto

text \<open>
  \<open>save\<close> of \<open>imageflattener.py\<close>: two saves of flattened pictures of the same source
  picture, with no other save and no \<open>next_file\<close> in between, write two different paths.
  If neither path was in the manifest, the manifest grows by two entries.
\<close>

lemma save_twice_two_entries:
  assumes "img_flattened s" "Save \<notin> set es" "Next \<notin> set es"
    and "img_flattened (run E es (save E s))"
    and "out_path (save_to s) (curr_path s) (flat_extra (num_saved s)) \<notin> fst ` set (saved s)"
    and "out_path (save_to s) (curr_path s) (flat_extra (Suc (num_saved s))) \<notin> fst ` set (saved s)"
  shows "length (saved (save E (run E es (save E s)))) = length (saved s) + 2"
proof -
  let ?p1 = "out_path (save_to s) (curr_path s) (flat_extra (num_saved s))"
  let ?p2 = "out_path (save_to s) (curr_path s) (flat_extra (Suc (num_saved s)))"
  from save_twice_distinct [OF assms(1-4)]
  have ne: "?p1 \<noteq> ?p2"
    and m: "saved (save E (run E es (save E s)))
         = AList.update ?p2 (dim (run E es (save E s))) (AList.update ?p1 (dim s) (saved s))"
    by auto
  have "?p2 \<notin> fst ` set (AList.update ?p1 (dim s) (saved s))"
    using assms(5,6) ne by (simp add: update_keys_fresh)
  then show ?thesis
    using assms(5) by (simp add: m update_fresh_length)
qed

text \<open>
  \<open>save\<close> of \<open>gui.py\<close> with the attribute \<open>_num_saved\<close> present: the suffix of every
  save after the first is the attribute's value, whatever the counter is.
\<close>

lemma gui_save_constant_suffix:
  "img_flattened s \<Longrightarrow> 0 < num_saved s \<Longrightarrow> attr_num_saved s = Some n \<Longrightarrow>
   disk (snd (gui_save E s))
     = disk s @ [(out_path (save_to s) (curr_path s) (''_flat_'' @ str_nat n), cv_img s)]"
  by (simp add: gui_save_def save_with_fields)

text \<open>
  Claim C1, on \<open>gui.py\<close>. The claim asks that two saves made while the picture is
  flattened write two distinct paths and add two manifest entries. In \<open>gui.py\<close>, a save
  made while the picture is flattened, after an earlier save of the same source picture
  (the counter is positive), on an instance without the attribute \<open>_num_saved\<close>, raises
  AttributeError and changes nothing: no second file and no second manifest entry.
\<close>

theorem gui_save_second_raises:
  "img_flattened s \<Longrightarrow> 0 < num_saved s \<Longrightarrow> attr_num_saved s = None \<Longrightarrow>
   gui_save E s = (Some AttributeError, s)"
  by (simp add: gui_save_def)

theorem gui_save_second_raises_witness:
  "img_flattened gui_run2 \<and> 0 < num_saved gui_run2 \<and> attr_num_saved gui_run2 = None
   \<and> phase gui_run2 = Flattened
   \<and> gui_save E0 gui_run2 = (Some AttributeError, gui_run2)
   \<and> map fst (disk gui_run2) = [''out/a_flat.jpg'']
   \<and> map fst (saved gui_run2) = [''out/a_flat.jpg'']"
proof -
  have h: "img_flattened gui_run2" "0 < num_saved gui_run2" "attr_num_saved gui_run2 = None"
    by (simp_all add: gui_run2_eq)
  from gui_save_second_raises [OF h, of E0] show ?thesis
    using h by (simp add: gui_run2_eq phase_def)
qed

section \<open>Saving before the picture is flattened\<close>

text \<open>
  Claim C5. The claim asks that \<open>save\<close> be a no-op in every state other than Flattened.
  While the dimension popup is open (the flag is set by the fourth click, the picture is
  not yet replaced), \<open>save\<close> is not a no-op: it writes the working picture under the name
  of a flattened one, records the path with \<open>self.dim\<close>, counts the save and reloads.
\<close>

theorem save_while_awaiting:
  "phase s = AwaitingDimensions \<Longrightarrow>
     save E s \<noteq> s
   \<and> disk (save E s)
       = disk s @ [(out_path (save_to s) (curr_path s) (flat_extra (num_saved s)), cv_img s)]
   \<and> saved (save E s)
       = AList.update (out_path (save_to s) (curr_path s) (flat_extra (num_saved s))) (dim s)
           (saved s)
   \<and> num_saved (save E s) = Suc (num_saved s)
   \<and> phase (save E s) = CollectingCorners"
proof -
  assume a: "phase s = AwaitingDimensions"
  then have f: "img_flattened s" by (simp add: phase_def split: if_splits)
  have e: "save E s = save_with E (flat_extra (num_saved s)) s" using f by (rule save_flattened)
  have "num_saved (save E s) \<noteq> num_saved s" by (simp add: e save_with_fields)
  then have "save E s \<noteq> s" by auto
  then show ?thesis by (simp add: e save_with_fields phase_def)
qed

theorem save_while_awaiting_witness:
  "phase s_await = AwaitingDimensions
   \<and> save E0 s_await \<noteq> s_await
   \<and> disk s_await = []
   \<and> disk (save E0 s_await) = [(''out/a_flat.jpg'', Source ''in/a.jpg'')]
   \<and> saved (save E0 s_await) = [(''out/a_flat.jpg'', None)]
   \<and> num_saved (save E0 s_await) = 1"
proof -
  have h: "phase s_await = AwaitingDimensions" by (simp add: s_await_eq phase_def)
  have p: "out_path ''out'' ''in/a.jpg'' ''_flat'' = ''out/a_flat.jpg''"
    by (simp add: out_path_def splitext_def basename_def)
  from save_while_awaiting [OF h, of E0] show ?thesis
    using h by (simp add: s_await_eq flat_extra_def p)
qed

section \<open>Entering dimensions\<close>

lemma done_dims_parsed:
  "float_of E a = Some x \<Longrightarrow> float_of E b = Some y \<Longrightarrow>
   dim (snd (done_dims E k a b s)) = Some (x, y)"
  by (simp add: done_dims_def flatten_img_def destroy_def Let_def split: option.split)

lemma done_dims_unparsed:
  "float_of E a = None \<or> float_of E b = None \<Longrightarrow>
   done_dims E k a b s = (None, print ''That's not a number.'' s)"
  by (auto simp: done_dims_def split: option.split)

text \<open>
  Claim C3, as amended. \<open>done\<close> stores a pair of dimensions exactly when both strings
  parse as floats, and then it stores the parsed pair as it is, whatever its sign. When
  either string fails to parse, \<open>done\<close> prints a message and returns: it raises nothing,
  stores nothing and leaves the popups as they are.
\<close>

theorem done_dims_stores_parsed:
  "(case float_of E a of
      None \<Rightarrow> done_dims E k a b s = (None, print ''That's not a number.'' s)
    | Some x \<Rightarrow>
       (case float_of E b of
          None \<Rightarrow> done_dims E k a b s = (None, print ''That's not a number.'' s)
        | Some y \<Rightarrow> dim (snd (done_dims E k a b s)) = Some (x, y)))
   \<and> dim (print ''That's not a number.'' s) = dim s
   \<and> popups (print ''That's not a number.'' s) = popups s"
  by (simp add: done_dims_parsed done_dims_unparsed print_def split: option.split)

text \<open>
  Claim C3 as stated fails: entering \<open>-5\<close> and \<open>0\<close> stores the pair \<open>(-5, 0)\<close>, without
  an exception.
\<close>

theorem negative_dims_stored:
  "dim (snd (done_dims E0 0 ''-5'' ''0'' s_await)) = Some (- 5, 0)
   \<and> fst (done_dims E0 0 ''-5'' ''0'' s_await) = None
   \<and> \<not> (0 < (- 5 :: real) \<and> 0 < (0 :: real))"
  by (simp add: s_await_eq model_defs)

text \<open>
  Claim C9. If the short-side string or the long-side string fails to parse, \<open>done\<close>
  prints its message and returns: the stored dimensions, the popups (none is closed), the
  working picture, the click list and the flag are as before, also when the short side
  parsed and the long side did not.
\<close>

theorem done_parse_failure:
  "float_of E short_str = None \<or> float_of E long_str = None \<Longrightarrow>
     done_dims E k short_str long_str s
       = (None, s\<lparr>stdout := stdout s @ [''That's not a number.'']\<rparr>)
   \<and> dim (snd (done_dims E k short_str long_str s)) = dim s
   \<and> popups (snd (done_dims E k short_str long_str s)) = popups s
   \<and> cv_img (snd (done_dims E k short_str long_str s)) = cv_img s
   \<and> clicks (snd (done_dims E k short_str long_str s)) = clicks s
   \<and> img_flattened (snd (done_dims E k short_str long_str s)) = img_flattened s"
  by (auto simp: done_dims_def print_def split: option.split)

theorem done_parse_failure_witness:
  "float_of E0 ''7'' = Some 7 \<and> float_of E0 ''abc'' = None
   \<and> dim s_dims = Some (50, 100)
   \<and> dim (snd (done_dims E0 1 ''7'' ''abc'' s_dims)) = Some (50, 100)
   \<and> popups (snd (done_dims E0 1 ''7'' ''abc'' s_dims)) = popups s_dims
   \<and> cv_img (snd (done_dims E0 1 ''7'' ''abc'' s_dims)) = Source ''in/a.jpg''
   \<and> fst (done_dims E0 1 ''7'' ''abc'' s_dims) = None"
proof -
  have p: "float_of E0 ''7'' = Some 7" "float_of E0 ''abc'' = None"
    by (simp_all add: model_defs)
  then have h: "float_of E0 ''7'' = None \<or> float_of E0 ''abc'' = None" by simp
  from done_parse_failure [OF h, of 1 s_dims] show ?thesis
    using p by (simp add: s_dims_eq)
qed

section \<open>Clicks\<close>

lemma click_flattened: "img_flattened s \<Longrightarrow> left_mouse_down E p s = s"
  by (simp add: left_mouse_down_def)

lemma click_inv_step: "click_inv s \<Longrightarrow> click_inv (left_mouse_down E p s)"
  by (auto simp: click_inv_def left_mouse_down_def request_dims_def Let_def)

lemma run_clicks_inv: "click_inv s \<Longrightarrow> click_inv (run E (map Click ps) s)"
  by (induction ps arbitrary: s) (simp_all add: step_def click_inv_step)

lemma run_clicks_flattened: "img_flattened s \<Longrightarrow> run E (map Click ps) s = s"
  by (induction ps) (simp_all add: step_def click_flattened)

lemma run_three_clicks:
  "\<not> img_flattened s \<Longrightarrow> clicks s = [] \<Longrightarrow>
   run E [Click p1, Click p2, Click p3] s = s\<lparr>clicks := map (win_to_canvas E) [p1, p2, p3]\<rparr>"
  by (simp add: step_def left_mouse_down_def request_dims_def Let_def)

lemma run_four_clicks:
  "\<not> img_flattened s \<Longrightarrow> clicks s = [] \<Longrightarrow>
   run E [Click p1, Click p2, Click p3, Click p4] s =
     s\<lparr>clicks := map (win_to_canvas E) [p1, p2, p3, p4], img_flattened := True,
        popups := popups s @ [\<lparr>alive = True, has_skip = (dim s \<noteq> None)\<rparr>]\<rparr>"
  by (simp add: step_def left_mouse_down_def request_dims_def Let_def)

text \<open>
  Claim C4. From a state that collects corners with an empty click list, three clicks
  leave the session collecting, with no new popup; the fourth click sets the flag and, in
  the same handler, opens the dimension popup, with the four points in the click list;
  every click after that is ignored; and after any number of clicks the click list has
  at most four entries.
\<close>

theorem fourth_click_awaits:
  "\<not> img_flattened s \<Longrightarrow> clicks s = [] \<Longrightarrow>
     phase (run E [Click p1, Click p2, Click p3] s) = CollectingCorners
   \<and> popups (run E [Click p1, Click p2, Click p3] s) = popups s
   \<and> phase (run E [Click p1, Click p2, Click p3, Click p4] s) = AwaitingDimensions
   \<and> clicks (run E [Click p1, Click p2, Click p3, Click p4] s)
       = map (win_to_canvas E) [p1, p2, p3, p4]
   \<and> popups (run E [Click p1, Click p2, Click p3, Click p4] s)
       = popups s @ [\<lparr>alive = True, has_skip = (dim s \<noteq> None)\<rparr>]
   \<and> (\<forall>ps. run E (map Click ps) (run E [Click p1, Click p2, Click p3, Click p4] s)
            = run E [Click p1, Click p2, Click p3, Click p4] s)
   \<and> (\<forall>ps. length (clicks (run E (map Click ps) s)) \<le> 4)"
proof -
  assume f: "\<not> img_flattened s" and c: "clicks s = []"
  let ?s3 = "run E [Click p1, Click p2, Click p3] s"
  let ?s4 = "run E [Click p1, Click p2, Click p3, Click p4] s"
  have s3: "?s3 = s\<lparr>clicks := map (win_to_canvas E) [p1, p2, p3]\<rparr>"
    using f c by (rule run_three_clicks)
  have s4: "?s4 = s\<lparr>clicks := map (win_to_canvas E) [p1, p2, p3, p4], img_flattened := True,
        popups := popups s @ [\<lparr>alive = True, has_skip = (dim s \<noteq> None)\<rparr>]\<rparr>"
    using f c by (rule run_four_clicks)
  have a: "phase ?s3 = CollectingCorners" "popups ?s3 = popups s"
    unfolding s3 using f by (simp_all add: phase_def)
  have b: "phase ?s4 = AwaitingDimensions"
    "clicks ?s4 = map (win_to_canvas E) [p1, p2, p3, p4]"
    "popups ?s4 = popups s @ [\<lparr>alive = True, has_skip = (dim s \<noteq> None)\<rparr>]"
    unfolding s4 by (simp_all add: phase_def)
  have "img_flattened ?s4" unfolding s4 by simp
  then have d: "\<forall>ps. run E (map Click ps) ?s4 = ?s4"
    by (simp add: run_clicks_flattened)
  have "click_inv s" using c by (simp add: click_inv_def)
  then have e: "\<forall>ps. length (clicks (run E (map Click ps) s)) \<le> 4"
    using run_clicks_inv [of s E] by (simp add: click_inv_def)
  from a b d e show ?thesis by blast
qed

theorem fourth_click_awaits_witness:
  "\<not> img_flattened (start None) \<and> clicks (start None) = []
   \<and> popups (start None) = []
   \<and> phase (run E0 four_clicks (start None)) = AwaitingDimensions
   \<and> clicks (run E0 four_clicks (start None)) = [(10, 10), (110, 10), (110, 60), (10, 60)]
   \<and> popups (run E0 four_clicks (start None)) = [\<lparr>alive = True, has_skip = False\<rparr>]
   \<and> run E0 (map Click [(5, 5), (6, 6)]) (run E0 four_clicks (start None))
       = run E0 four_clicks (start None)"
proof -
  have h: "\<not> img_flattened (start None)" "clicks (start None) = []"
    by (simp_all add: start_def init_def)
  have p: "popups (start None) = []" "dim (start None) = None" "win_to_canvas E0 = (\<lambda>p. p)"
    by (simp_all add: start_def init_def E0_def)
  note t = fourth_click_awaits [OF h, of E0 "(10, 10)" "(110, 10)" "(110, 60)" "(10, 60)",
      folded four_clicks_def]
  from t have a: "phase (run E0 four_clicks (start None)) = AwaitingDimensions"
    and b: "clicks (run E0 four_clicks (start None)) = map (win_to_canvas E0)
              [(10, 10), (110, 10), (110, 60), (10, 60)]"
    and c: "popups (run E0 four_clicks (start None))
              = popups (start None) @ [\<lparr>alive = True, has_skip = (dim (start None) \<noteq> None)\<rparr>]"
    and d: "\<forall>ps. run E0 (map Click ps) (run E0 four_clicks (start None))
              = run E0 four_clicks (start None)"
    by blast+
  from d have "run E0 (map Click [(5, 5), (6, 6)]) (run E0 four_clicks (start None))
              = run E0 four_clicks (start None)" ..
  with a b c h p show ?thesis by simp
qed

section \<open>The next picture\<close>

text \<open>
  Claim C7. \<open>next_file\<close> sets the save counter to zero and clears the flag; the stored
  dimensions and the manifest are as before.
\<close>

theorem next_file_frame:
  "num_saved (next_file E s) = 0
   \<and> \<not> img_flattened (next_file E s)
   \<and> dim (next_file E s) = dim s
   \<and> saved (next_file E s) = saved s"
  by (simp add: next_file_def load_next_img_or_end_def reload_def base_reload_def
        split: list.split)

section \<open>Use Last\<close>

lemma skip_dim: "dim (snd (skip E k s)) = dim s"
  by (simp add: skip_def flatten_img_def destroy_def Let_def split: option.split prod.split)

lemma skip_flattens:
  "dim s = Some (a, b) \<Longrightarrow> length (clicks s) = 4 \<Longrightarrow>
   four_points_correct_aspect E (cv_img s) (map (canvas_to_cv E) (clicks s)) a b = Some flat \<Longrightarrow>
   skip E k s = (None, (destroy k s)\<lparr>cv_img := flat, clicks := []\<rparr>)"
  by (simp add: skip_def flatten_img_def destroy_def Let_def)

lemma use_last_absent:
  "dim s = None \<Longrightarrow>
   step E (UseLast (length (popups s))) (request_dims s) = (None, request_dims s)"
  by (simp add: step_def request_dims_def)

text \<open>
  Claim C6, as amended. A popup made while no dimensions are stored has no ``Use Last''
  button, and pressing it is not possible: the event changes nothing and raises nothing.
  A popup made while dimensions are stored has the button. After \<open>done\<close> has parsed
  and stored a pair, \<open>skip\<close> on four clicks calls the warp with exactly the stored pair
  and, if the warp returns, replaces the picture by its result; \<open>skip\<close> never changes the
  stored dimensions.
\<close>

theorem use_last_reuses:
  "has_skip (last (popups (request_dims s))) = (dim s \<noteq> None)
   \<and> (dim s = None \<longrightarrow>
        step E (UseLast (length (popups s))) (request_dims s) = (None, request_dims s))
   \<and> (float_of E x = Some a \<and> float_of E y = Some b \<longrightarrow>
        dim (snd (done_dims E j x y s)) = Some (a, b))
   \<and> (dim s = Some (a, b) \<and> length (clicks s) = 4
        \<and> four_points_correct_aspect E (cv_img s) (map (canvas_to_cv E) (clicks s)) a b
            = Some flat \<longrightarrow>
        skip E k s = (None, (destroy k s)\<lparr>cv_img := flat, clicks := []\<rparr>))
   \<and> dim (snd (skip E k s)) = dim s"
proof -
  have "has_skip (last (popups (request_dims s))) = (dim s \<noteq> None)"
    by (simp add: request_dims_def)
  then show ?thesis
    by (simp add: use_last_absent skip_flattens skip_dim done_dims_parsed)
qed

text \<open>
  Claim C6 as stated fails: with no dimensions stored, the popup has no ``Use Last''
  button, the event does nothing, and the closure \<open>skip\<close>, called all the same, raises
  TypeError, not NoPriorDimensionsError.
\<close>

theorem use_last_without_dims:
  "dim s_await = None
   \<and> popups s_await = [\<lparr>alive = True, has_skip = False\<rparr>]
   \<and> step E0 (UseLast 0) s_await = (None, s_await)
   \<and> fst (skip E0 0 s_await) = Some TypeError
   \<and> fst (skip E0 0 s_await) \<noteq> Some NoPriorDimensionsError"
  by (simp add: s_await_eq model_defs)

theorem use_last_reuses_witness:
  "dim (start None) = None
   \<and> step E0 (UseLast 0) (request_dims (start None)) = (None, request_dims (start None))
   \<and> float_of E0 ''50'' = Some 50 \<and> float_of E0 ''100'' = Some 100
   \<and> dim (snd (done_dims E0 0 ''50'' ''100'' s_await)) = Some (50, 100)
   \<and> dim s_dims = Some (50, 100) \<and> length (clicks s_dims) = 4
   \<and> has_skip (popups s_dims ! 1)
   \<and> skip E0 1 s_dims
       = (None, (destroy 1 s_dims)\<lparr>cv_img := Flat (Source ''in/a.jpg'')
                   [(10, 10), (110, 10), (110, 60), (10, 60)] 50 100, clicks := []\<rparr>)
   \<and> dim (snd (skip E0 1 s_dims)) = Some (50, 100)"
proof -
  have n: "dim (start None) = None" "length (popups (start None)) = 0"
    by (simp_all add: start_def init_def)
  have p: "float_of E0 ''50'' = Some 50" "float_of E0 ''100'' = Some 100"
    by (simp_all add: model_defs)
  have d: "dim s_dims = Some (50, 100)" "length (clicks s_dims) = 4"
    "has_skip (popups s_dims ! 1)"
    "four_points_correct_aspect E0 (cv_img s_dims) (map (canvas_to_cv E0) (clicks s_dims)) 50 100
       = Some (Flat (Source ''in/a.jpg'') [(10, 10), (110, 10), (110, 60), (10, 60)] 50 100)"
    by (simp_all add: s_dims_eq E0_def)
  from use_last_reuses [of "start None" E0 "''50''" 50 "''100''" 100 0 _ 0]
  have a: "step E0 (UseLast 0) (request_dims (start None)) = (None, request_dims (start None))"
    using n by simp
  from use_last_reuses [of s_await E0 "''50''" 50 "''100''" 100 0 _ 0]
  have b: "dim (snd (done_dims E0 0 ''50'' ''100'' s_await)) = Some (50, 100)"
    using p by simp
  from use_last_reuses [of s_dims E0 "''50''" 50 "''100''" 100 0
      "Flat (Source ''in/a.jpg'') [(10, 10), (110, 10), (110, 60), (10, 60)] 50 100" 1]
  have c: "skip E0 1 s_dims
       = (None, (destroy 1 s_dims)\<lparr>cv_img := Flat (Source ''in/a.jpg'')
                   [(10, 10), (110, 10), (110, 60), (10, 60)] 50 100, clicks := []\<rparr>)"
    and c': "dim (snd (skip E0 1 s_dims)) = dim s_dims"
    using d by blast+
  from c' d have e: "dim (snd (skip E0 1 s_dims)) = Some (50, 100)" by simp
  from n p a b c e d show ?thesis by blast
qed

section \<open>Parsing the input\<close>

lemma check_point_None_iff:
  "check_point v p = None \<longleftrightarrow>
     length v = 2 \<and> (\<exists>x y rest. p = JArray (x # y # rest) \<and> is_int x \<and> is_int y)"
  by (cases p) (auto split: list.splits)

lemma check_points_None_iff:
  "check_points v ps = None \<longleftrightarrow> (\<forall>p \<in> set ps. check_point v p = None)"
  by (induction ps) (auto split: option.splits)

lemma hint_list_accepted_iff:
  "check_points v v = None \<longleftrightarrow>
     v = [] \<or> (length v = 2 \<and>
       (\<forall>p \<in> set v. \<exists>x y rest. p = JArray (x # y # rest) \<and> is_int x \<and> is_int y))"
proof -
  have "check_points v v = None \<longleftrightarrow>
      (\<forall>p \<in> set v. length v = 2
         \<and> (\<exists>x y rest. p = JArray (x # y # rest) \<and> is_int x \<and> is_int y))"
    by (simp only: check_points_None_iff check_point_None_iff)
  also have "\<dots> \<longleftrightarrow> v = [] \<or> (length v = 2 \<and>
       (\<forall>p \<in> set v. \<exists>x y rest. p = JArray (x # y # rest) \<and> is_int x \<and> is_int y))"
    by (cases v) auto
  finally show ?thesis .
qed

lemma set_update_subset: "x \<in> set (AList.update k v al) \<Longrightarrow> x = (k, v) \<or> x \<in> set al"
  by (induction al) (auto split: if_splits)

lemma parse_list_strings:
  "parse_list (map JString ps) acc = Inr r \<Longrightarrow>
   \<forall>(k, v) \<in> set acc. v = [] \<Longrightarrow> \<forall>(k, v) \<in> set r. v = []"
proof (induction ps arbitrary: acc)
  case Nil
  then show ?case by simp
next
  case (Cons p ps)
  have "\<forall>(k, v) \<in> set (AList.update (JString p) [] acc). v = []"
    using Cons.prems(2) by (auto dest: set_update_subset)
  with Cons show ?case by simp
qed

lemma parse_list_strings_ok: "\<exists>r. parse_list (map JString ps) acc = Inr r"
  by (induction ps arbitrary: acc) simp_all

text \<open>
  Claim C2, on the code. The claim asks that a hint list be accepted exactly when each of
  its entries is a list of two integers. \<open>_parse_input\<close> compares the length of the hint
  list, not of the entry, with 2: a hint list of one pair is refused, a hint list of two
  triples is accepted, a hint list of two one-element entries raises IndexError, and a
  hint list of three pairs is refused.
\<close>

theorem parse_input_counts_points:
  "parse_input (JObject [(''a.jpg'', JArray [JArray [JInt 1, JInt 2]])]) = Inl JsonFormatError
   \<and> int_pair (JArray [JInt 1, JInt 2])
   \<and> parse_input (JObject [(''a.jpg'',
        JArray [JArray [JInt 1, JInt 2, JInt 3], JArray [JInt 4, JInt 5, JInt 6]])])
      = Inr [(JString ''a.jpg'',
              [JArray [JInt 1, JInt 2, JInt 3], JArray [JInt 4, JInt 5, JInt 6]])]
   \<and> \<not> int_pair (JArray [JInt 1, JInt 2, JInt 3])
   \<and> parse_input (JObject [(''a.jpg'', JArray [JArray [JInt 1], JArray [JInt 2]])])
      = Inl IndexError
   \<and> parse_input (JObject [(''a.jpg'',
        JArray [JArray [JInt 1, JInt 2], JArray [JInt 3, JInt 4], JArray [JInt 5, JInt 6]])])
      = Inl JsonFormatError"
  by simp

lemma parse_input_examples:
  "parse_input (JArray [JString ''a.jpg'', JString ''b.jpg''])
     = Inr [(JString ''a.jpg'', []), (JString ''b.jpg'', [])]
   \<and> parse_input (JObject [(''a.jpg'', JArray [JArray [JInt 1, JInt 2], JArray [JInt 3, JInt 4]])])
     = Inr [(JString ''a.jpg'', [JArray [JInt 1, JInt 2], JArray [JInt 3, JInt 4]])]
   \<and> parse_input (JString ''a.jpg'') = Inl JsonFormatError
   \<and> parse_input (JObject [(''a.jpg'', JInt 3)]) = Inl JsonFormatError
   \<and> parse_input (JArray [JInt 1, JNull]) = Inr [(JInt 1, []), (JNull, [])]"
  by simp

section \<open>The size of the warped picture\<close>

lemma py_round_nonneg: "0 \<le> x \<Longrightarrow> 0 \<le> py_round x"
  by (auto simp: py_round_def Let_def)

lemma length_grid: "length (grid w h) = w * h"
  by (induction h) (simp_all add: grid_def)

text \<open>
  Claim C8. For four corner points no three of which lie on a line, and positive target
  sides \<open>w\<close> and \<open>h\<close>, the warp returns a raster of exactly \<open>round(w)\<close> by \<open>round(h)\<close>
  pixels: its width, its height and the number of pixels it holds.
\<close>

theorem warp_size:
  "\<not> degenerate corners \<Longrightarrow> 0 < w \<Longrightarrow> 0 < h \<Longrightarrow>
   \<exists>r. warp resample img corners w h = Inr r
       \<and> int (width r) = py_round w \<and> int (height r) = py_round h
       \<and> length (buffer r) = width r * height r"
  by (simp add: warp_def Let_def py_round_nonneg length_grid)

theorem warp_size_witness:
  "\<not> degenerate ((10, 10), (110, 10), (110, 60), (10, 60)) \<and> (0::real) < 50 \<and> (0::real) < 100
   \<and> (\<exists>r. warp (\<lambda>i c w h p. ()) blank ((10, 10), (110, 10), (110, 60), (10, 60)) 50 100 = Inr r
          \<and> width r = 50 \<and> height r = 100 \<and> length (buffer r) = 5000)"
proof -
  have d: "\<not> degenerate ((10, 10), (110, 10), (110, 60), (10, 60))"
    by (simp add: degenerate_def collinear3_def)
  have r: "py_round 50 = 50" "py_round 100 = 100" by (simp_all add: py_round_def)
  from warp_size [OF d, of 50 100 "\<lambda>i c w h p. ()" blank]
  obtain r where "warp (\<lambda>i c w h p. ()) blank ((10, 10), (110, 10), (110, 60), (10, 60)) 50 100 = Inr r"
    "int (width r) = 50" "int (height r) = 100" "length (buffer r) = width r * height r"
    by (auto simp: r)
  then show ?thesis using d by auto
qed

lemma py_round_examples:
  "py_round (1 / 2) = 0 \<and> py_round (3 / 2) = 2 \<and> py_round (5 / 2) = 2 \<and> py_round (3 / 10) = 0
   \<and> py_round (- 1 / 2) = 0 \<and> py_round (27 / 10) = 3"
  by (simp add: py_round_def)

end
